theory Spec2Isabelle
  imports Main
begin

section \<open>The entry procedure of \<^verbatim>\<open>src/main.cc\<close>\<close>

text \<open>
  The program is one straight-line \<^verbatim>\<open>main\<close>: it builds the flag vector \<^verbatim>\<open>Args\<close>, calls
  \<^verbatim>\<open>clang::tooling::buildASTFromCodeWithArgs(argv[1], Args, "input.cc", CLANG_PATH)\<close>,
  returns 1 when the returned pointer is null, returns 1 when
  \<^verbatim>\<open>AST->getDiagnostics().hasUncompilableErrorOccurred()\<close>, and otherwise calls
  \<^verbatim>\<open>AST->getASTContext().getTranslationUnitDecl()->dumpColor()\<close> and falls off the end
  of \<^verbatim>\<open>main\<close>, which in C++ is \<^verbatim>\<open>return 0\<close>.

  The clang library is not part of the repository. The parse entry point is a parameter
  of the model, and so is the macro \<^verbatim>\<open>CLANG_PATH\<close>, which the build defines. The
  library types are modelled by the part of their interface that \<^verbatim>\<open>main\<close> reads.
\<close>

subsection \<open>Library types as \<^verbatim>\<open>main\<close> sees them\<close>

text \<open>\<^verbatim>\<open>clang::DiagnosticsEngine\<close>: only \<^verbatim>\<open>hasUncompilableErrorOccurred()\<close> is read.\<close>

record DiagnosticsEngine =
  hasUncompilableErrorOccurred :: bool

text \<open>\<^verbatim>\<open>clang::ASTContext\<close>: only \<^verbatim>\<open>getTranslationUnitDecl()\<close> is read; the declaration
  itself is opaque (type \<open>'tu\<close>).\<close>

record 'tu ASTContext =
  getTranslationUnitDecl :: 'tu

text \<open>\<^verbatim>\<open>clang::ASTUnit\<close>, the object behind the \<^verbatim>\<open>std::unique_ptr\<close> that the parse returns.\<close>

record 'tu ASTUnit =
  getDiagnostics :: DiagnosticsEngine
  getASTContext :: "'tu ASTContext"

text \<open>
  The parse entry point, with the four arguments \<^verbatim>\<open>main\<close> passes (\<^verbatim>\<open>Code\<close>, \<^verbatim>\<open>Args\<close>,
  \<^verbatim>\<open>FileName\<close>, \<^verbatim>\<open>ToolName\<close>). A null \<^verbatim>\<open>unique_ptr\<close> is \<open>None\<close>. The call is
  blocking and is taken to return; the diagnostics the library prints while it parses are
  the library's own output and are not recorded here.
\<close>

type_synonym 'tu toolchain =
  "string \<Rightarrow> string list \<Rightarrow> string \<Rightarrow> string \<Rightarrow> 'tu ASTUnit option"

subsection \<open>Effects and outcomes\<close>

text \<open>
  The calls \<^verbatim>\<open>main\<close> makes into the library, recorded in program order. \<open>DumpColor\<close> is
  the only one that writes to standard output; what it writes is the library's business.
\<close>

datatype 'tu call =
    is_parse: BuildASTFromCodeWithArgs (Code: string) (CmdArgs: "string list")
      (FileName: string) (ToolName: string)
  | is_dump: DumpColor 'tu

text \<open>
  A run of \<^verbatim>\<open>main\<close> ends with an exit status, after a sequence of library calls.
\<close>

datatype 'tu outcome =
    Exited int "'tu call list"

text \<open>The translation units whose dump was requested, in order.\<close>

fun dumps :: "'tu call list \<Rightarrow> 'tu list" where
  "dumps [] = []"
| "dumps (BuildASTFromCodeWithArgs code args file tool # cs) = dumps cs"
| "dumps (DumpColor tu # cs) = tu # dumps cs"

subsection \<open>The program\<close>

text \<open>Lines 10 to 13: \<^verbatim>\<open>std::vector<std::string> Args { "-std=c++20", "-Wall" }\<close>.\<close>

definition Args :: "string list" where
  "Args = [''-std=c++20'', ''-Wall'']"

text \<open>
  \<^verbatim>\<open>argv[i]\<close>, a \<^verbatim>\<open>char*\<close>. The list \<open>argv\<close> holds the argument strings
  \<^verbatim>\<open>argv[0]\<close> to \<^verbatim>\<open>argv[argc - 1]\<close> that the process received, the program name first.
  The array that C++ hands to \<^verbatim>\<open>main\<close> has one more element, \<^verbatim>\<open>argv[argc]\<close>, which is
  the null pointer. So for a program started with its name only, \<^verbatim>\<open>argv[1]\<close> is that
  terminator: a read inside the array, whose value is null. \<open>None\<close> is the null pointer.
\<close>

definition argv_at :: "string list \<Rightarrow> nat \<Rightarrow> string option" where
  "argv_at argv i = (if i < length argv then Some (argv ! i) else None)"

text \<open>
  The parameter \<^verbatim>\<open>Code\<close> of the parse is an \<^verbatim>\<open>llvm::StringRef\<close>, so the call on line 20
  converts the \<^verbatim>\<open>char*\<close> it read. The header of that class is not part of the
  repository; its converting constructor takes the characters up to the terminating NUL,
  and for a null pointer it builds the empty reference, of length 0.
\<close>

definition StringRef :: "string option \<Rightarrow> string" where
  "StringRef p = (case p of None \<Rightarrow> [] | Some s \<Rightarrow> s)"

text \<open>
  \<^verbatim>\<open>int main(int argc, char** argv)\<close>, lines 9 to 36; the source marks \<^verbatim>\<open>argc\<close> as
  \<^verbatim>\<open>maybe_unused\<close> and never reads it. \<open>buildAST\<close> is the library's
  \<^verbatim>\<open>tooling::buildASTFromCodeWithArgs\<close>, \<open>CLANG_PATH\<close> the macro of that name. The
  list of calls is what the run asked of the library, in order; the final
  \<^verbatim>\<open>dumpColor()\<close> is followed by the end of \<^verbatim>\<open>main\<close>, that is by status 0.

  There is no test before the read of \<^verbatim>\<open>argv[1]\<close> and no branch on its value: whatever
  the read yields goes to the parse, and the two checks and the dump follow. The list is
  the vector of a hosted start, which begins with the program name, so index 1 is inside
  the array. A start with \<^verbatim>\<open>argc = 0\<close>, where \<^verbatim>\<open>argv[1]\<close> would lie past the
  terminator, is not a case the model describes: on the empty list \<open>argv_at\<close> gives null
  as well.
\<close>

definition main :: "'tu toolchain \<Rightarrow> string \<Rightarrow> int \<Rightarrow> string list \<Rightarrow> 'tu outcome" where
  "main buildAST CLANG_PATH argc argv =
     (let code = StringRef (argv_at argv 1);
          parse = BuildASTFromCodeWithArgs code Args ''input.cc'' CLANG_PATH in
      case buildAST code Args ''input.cc'' CLANG_PATH of
        None \<Rightarrow> Exited 1 [parse]
      | Some AST \<Rightarrow>
          if hasUncompilableErrorOccurred (getDiagnostics AST) then Exited 1 [parse]
          else Exited 0 [parse, DumpColor (getTranslationUnitDecl (getASTContext AST))])"

subsection \<open>A small stand-in toolchain\<close>

text \<open>
  To run \<open>main\<close> on concrete arguments a toolchain is needed. This one fails outright
  when the tool path is empty, reports an uncompilable error when the code does not end in
  a semicolon or a closing brace, and otherwise returns a unit whose translation unit is
  the code itself. The empty text is accepted.
\<close>

definition toy_buildAST :: "string toolchain" where
  "toy_buildAST code args file tool =
     (if tool = [] then None
      else Some \<lparr> getDiagnostics =
                    \<lparr> hasUncompilableErrorOccurred =
                        (code \<noteq> [] \<and> last code \<noteq> CHR '';'' \<and> last code \<noteq> CHR ''}'') \<rparr>,
                  getASTContext = \<lparr> getTranslationUnitDecl = code \<rparr> \<rparr>)"

section \<open>Properties\<close>

subsection \<open>Shared facts\<close>

lemma argv_at_1_Cons: "argv_at (a # c # rest) 1 = Some c"
  by (simp add: argv_at_def)

lemma main_null:
  assumes "argv_at argv 1 = Some code"
    and "buildAST code Args ''input.cc'' CLANG_PATH = None"
  shows "main buildAST CLANG_PATH argc argv =
           Exited 1 [BuildASTFromCodeWithArgs code Args ''input.cc'' CLANG_PATH]"
  using assms by (simp add: main_def StringRef_def)

lemma main_uncompilable:
  assumes "argv_at argv 1 = Some code"
    and "buildAST code Args ''input.cc'' CLANG_PATH = Some AST"
    and "hasUncompilableErrorOccurred (getDiagnostics AST)"
  shows "main buildAST CLANG_PATH argc argv =
           Exited 1 [BuildASTFromCodeWithArgs code Args ''input.cc'' CLANG_PATH]"
  using assms by (simp add: main_def StringRef_def)

lemma main_success:
  assumes "argv_at argv 1 = Some code"
    and "buildAST code Args ''input.cc'' CLANG_PATH = Some AST"
    and "\<not> hasUncompilableErrorOccurred (getDiagnostics AST)"
  shows "main buildAST CLANG_PATH argc argv =
           Exited 0 [BuildASTFromCodeWithArgs code Args ''input.cc'' CLANG_PATH,
                     DumpColor (getTranslationUnitDecl (getASTContext AST))]"
  using assms by (simp add: main_def StringRef_def)

lemma main_parses_once:
  assumes "argv_at argv 1 = Some code"
  shows "\<exists>status rest. main buildAST CLANG_PATH argc argv =
             Exited status (BuildASTFromCodeWithArgs code Args ''input.cc'' CLANG_PATH # rest)
           \<and> filter is_parse rest = []"
  using assms by (auto simp: main_def StringRef_def Let_def split: option.split)

lemma toy_buildAST_ok:
  "toy_buildAST ''int x;'' Args ''input.cc'' ''/usr/lib/llvm/bin/clang'' =
     Some \<lparr> getDiagnostics = \<lparr> hasUncompilableErrorOccurred = False \<rparr>,
            getASTContext = \<lparr> getTranslationUnitDecl = ''int x;'' \<rparr> \<rparr>"
  by (simp add: toy_buildAST_def)

lemma toy_buildAST_error:
  "toy_buildAST ''int f( {'' Args ''input.cc'' ''/usr/lib/llvm/bin/clang'' =
     Some \<lparr> getDiagnostics = \<lparr> hasUncompilableErrorOccurred = True \<rparr>,
            getASTContext = \<lparr> getTranslationUnitDecl = ''int f( {'' \<rparr> \<rparr>"
  by (simp add: toy_buildAST_def)

lemma toy_buildAST_null: "toy_buildAST code args file [] = None"
  by (simp add: toy_buildAST_def)


subsection \<open>The two failure exits\<close>

text \<open>
  C2. If the parse returns no usable result (a null handle), the program exits with
  status 1 at once: the parse is the only library call of the run, and no dump is
  requested.
\<close>

theorem null_result_exits_1_without_dump:
  assumes "argv_at argv 1 = Some code"
    and "buildAST code Args ''input.cc'' CLANG_PATH = None"
  shows "\<exists>calls. main buildAST CLANG_PATH argc argv = Exited 1 calls
           \<and> dumps calls = [] \<and> length calls = 1"
  using assms by (simp add: main_null)

theorem null_result_exits_1_without_dump_witness:
  "argv_at [''prog'', ''int x;''] 1 = Some ''int x;''
   \<and> toy_buildAST ''int x;'' Args ''input.cc'' [] = None
   \<and> (\<exists>calls. main toy_buildAST [] 2 [''prog'', ''int x;''] = Exited 1 calls
         \<and> dumps calls = [] \<and> length calls = 1)"
proof -
  have a: "argv_at [''prog'', ''int x;''] 1 = Some ''int x;''"
    by (rule argv_at_1_Cons)
  have b: "toy_buildAST ''int x;'' Args ''input.cc'' [] = None"
    by (simp add: toy_buildAST_def)
  from null_result_exits_1_without_dump
         [where buildAST = toy_buildAST and CLANG_PATH = "[]" and argc = 2
            and argv = "[''prog'', ''int x;'']" and code = "''int x;''"] a b
  show ?thesis
    by blast
qed

text \<open>
  C3. If the parse returns a valid handle whose diagnostics record an uncompilable error,
  the program exits with status 1 and requests no dump.
\<close>

theorem uncompilable_error_exits_1_without_dump:
  assumes "argv_at argv 1 = Some code"
    and "buildAST code Args ''input.cc'' CLANG_PATH = Some AST"
    and "hasUncompilableErrorOccurred (getDiagnostics AST)"
  shows "\<exists>calls. main buildAST CLANG_PATH argc argv = Exited 1 calls \<and> dumps calls = []"
  using assms by (simp add: main_uncompilable)

theorem uncompilable_error_exits_1_without_dump_witness:
  "\<exists>calls. main toy_buildAST ''/usr/lib/llvm/bin/clang'' 2 [''prog'', ''int f( {'']
             = Exited 1 calls \<and> dumps calls = []"
proof -
  have a: "argv_at [''prog'', ''int f( {''] 1 = Some ''int f( {''"
    by (rule argv_at_1_Cons)
  have c: "hasUncompilableErrorOccurred (getDiagnostics
             \<lparr> getDiagnostics = \<lparr> hasUncompilableErrorOccurred = True \<rparr>,
               getASTContext = \<lparr> getTranslationUnitDecl = ''int f( {'' \<rparr> \<rparr>)"
    by simp
  from uncompilable_error_exits_1_without_dump
         [where buildAST = toy_buildAST and argc = 2, OF a toy_buildAST_error c]
  show ?thesis .
qed

subsection \<open>The successful run\<close>

text \<open>
  C1. Whenever the parse returns a usable result whose diagnostics record no uncompilable
  error, the program requests exactly one dump, that of the result's translation unit,
  and exits with status 0.
\<close>

theorem success_dumps_once_and_exits_0:
  assumes "argv_at argv 1 = Some code"
    and "buildAST code Args ''input.cc'' CLANG_PATH = Some AST"
    and "\<not> hasUncompilableErrorOccurred (getDiagnostics AST)"
  shows "\<exists>calls. main buildAST CLANG_PATH argc argv = Exited 0 calls
           \<and> dumps calls = [getTranslationUnitDecl (getASTContext AST)]"
  using assms by (simp add: main_success)

theorem success_dumps_once_and_exits_0_witness:
  "\<exists>calls. main toy_buildAST ''/usr/lib/llvm/bin/clang'' 2 [''prog'', ''int x;'']
             = Exited 0 calls \<and> dumps calls = [''int x;'']"
proof -
  have a: "argv_at [''prog'', ''int x;''] 1 = Some ''int x;''"
    by (rule argv_at_1_Cons)
  have c: "\<not> hasUncompilableErrorOccurred (getDiagnostics
             \<lparr> getDiagnostics = \<lparr> hasUncompilableErrorOccurred = False \<rparr>,
               getASTContext = \<lparr> getTranslationUnitDecl = ''int x;'' \<rparr> \<rparr>)"
    by simp
  from success_dumps_once_and_exits_0
         [where buildAST = toy_buildAST and argc = 2, OF a toy_buildAST_ok c]
  show ?thesis by simp
qed

subsection \<open>Exit status and output\<close>

text \<open>
  C4. For every source text given as \<^verbatim>\<open>argv[1]\<close> and every behaviour of the toolchain,
  the run exits, its status is 0 or 1, and it is 0 exactly when the parse produced a
  result that records no uncompilable error.
\<close>

theorem exit_status_is_0_or_1:
  assumes "argv_at argv 1 = Some code"
  shows "\<exists>status calls. main buildAST CLANG_PATH argc argv = Exited status calls
           \<and> (status = 0 \<or> status = 1)
           \<and> (status = 0 \<longleftrightarrow>
                (\<exists>AST. buildAST code Args ''input.cc'' CLANG_PATH = Some AST
                   \<and> \<not> hasUncompilableErrorOccurred (getDiagnostics AST)))"
proof (cases "buildAST code Args ''input.cc'' CLANG_PATH")
  case None
  with assms show ?thesis by (simp add: main_null)
next
  case (Some AST)
  show ?thesis
  proof (cases "hasUncompilableErrorOccurred (getDiagnostics AST)")
    case True
    with assms Some show ?thesis by (simp add: main_uncompilable)
  next
    case False
    with assms Some show ?thesis by (simp add: main_success)
  qed
qed

theorem exit_status_is_0_or_1_witness:
  "\<exists>status calls.
     main toy_buildAST ''/usr/lib/llvm/bin/clang'' 2 [''prog'', ''int f( {'']
       = Exited status calls
     \<and> (status = 0 \<or> status = 1) \<and> status \<noteq> 0"
proof -
  have a: "argv_at [''prog'', ''int f( {''] 1 = Some ''int f( {''"
    by (rule argv_at_1_Cons)
  from exit_status_is_0_or_1
         [where buildAST = toy_buildAST and argc = 2
            and CLANG_PATH = "''/usr/lib/llvm/bin/clang''", OF a]
  show ?thesis by (simp add: toy_buildAST_error)
qed

text \<open>
  C5. Whenever the program exits with status 1, on either failure path, it has requested
  no output: the dump, its only output operation, is not among the calls of the run.
\<close>

theorem failure_exit_requests_no_output:
  assumes "main buildAST CLANG_PATH argc argv = Exited 1 calls"
  shows "dumps calls = [] \<and> filter is_dump calls = []"
  using assms by (auto simp: main_def Let_def split: option.splits if_splits)

theorem failure_exit_requests_no_output_witness:
  "main toy_buildAST [] 2 [''prog'', ''int x;'']
     = Exited 1 [BuildASTFromCodeWithArgs ''int x;'' Args ''input.cc'' []]
   \<and> dumps [BuildASTFromCodeWithArgs ''int x;'' Args ''input.cc'' [] :: string call] = []
   \<and> filter is_dump [BuildASTFromCodeWithArgs ''int x;'' Args ''input.cc'' [] :: string call]
       = []"
proof -
  have r: "main toy_buildAST [] 2 [''prog'', ''int x;'']
             = Exited 1 [BuildASTFromCodeWithArgs ''int x;'' Args ''input.cc'' []]"
    by (simp add: main_def StringRef_def argv_at_def toy_buildAST_def)
  from failure_exit_requests_no_output [OF r] r show ?thesis by blast
qed

subsection \<open>What is handed to the toolchain\<close>

text \<open>
  C6. The configuration passed to the toolchain is the constant list of one
  language-standard selector and one warnings flag, \<^verbatim>\<open>-std=c++20\<close> and \<^verbatim>\<open>-Wall\<close>,
  whatever the process arguments are: the run makes one parse call, with that list.
\<close>

theorem configuration_is_fixed:
  assumes "argv_at argv 1 = Some code"
  shows "\<exists>status calls. main buildAST CLANG_PATH argc argv = Exited status calls
           \<and> map CmdArgs (filter is_parse calls) = [Args]
           \<and> Args = [''-std=c++20'', ''-Wall'']"
proof -
  from main_parses_once [OF assms, of buildAST CLANG_PATH argc]
  obtain status rest where
    "main buildAST CLANG_PATH argc argv =
       Exited status (BuildASTFromCodeWithArgs code Args ''input.cc'' CLANG_PATH # rest)"
    "filter is_parse rest = []"
    by blast
  then show ?thesis by (simp add: Args_def)
qed

theorem configuration_is_fixed_witness:
  "\<exists>status calls.
     main toy_buildAST ''/usr/lib/llvm/bin/clang'' 5 [''prog'', ''int x;'', ''-O2'']
       = Exited status calls
     \<and> map CmdArgs (filter is_parse calls) = [''-std=c++20'', ''-Wall''] # []"
proof -
  have a: "argv_at [''prog'', ''int x;'', ''-O2''] 1 = Some ''int x;''"
    by (rule argv_at_1_Cons)
  from configuration_is_fixed
         [where buildAST = toy_buildAST and argc = 5
            and CLANG_PATH = "''/usr/lib/llvm/bin/clang''", OF a]
  show ?thesis by auto
qed

text \<open>
  C7. The source text handed to the toolchain is \<^verbatim>\<open>argv[1]\<close> as it stands. The program
  checks nothing about it before the parse call: whatever the string is, the run makes one
  parse call, with that string as the code.
\<close>

theorem source_text_is_argv1:
  assumes "argv_at argv 1 = Some code"
  shows "\<exists>status calls. main buildAST CLANG_PATH argc argv = Exited status calls
           \<and> map Code (filter is_parse calls) = [code]"
proof -
  from main_parses_once [OF assms, of buildAST CLANG_PATH argc]
  obtain status rest where
    "main buildAST CLANG_PATH argc argv =
       Exited status (BuildASTFromCodeWithArgs code Args ''input.cc'' CLANG_PATH # rest)"
    "filter is_parse rest = []"
    by blast
  then show ?thesis by simp
qed

theorem source_text_is_argv1_witness:
  "\<exists>status calls.
     main toy_buildAST ''/usr/lib/llvm/bin/clang'' 2 [''prog'', ''int f( {'']
       = Exited status calls
     \<and> map Code (filter is_parse calls) = [''int f( {'']"
proof -
  have a: "argv_at [''prog'', ''int f( {''] 1 = Some ''int f( {''"
    by (rule argv_at_1_Cons)
  from source_text_is_argv1
         [where buildAST = toy_buildAST and argc = 2
            and CLANG_PATH = "''/usr/lib/llvm/bin/clang''", OF a]
  show ?thesis .
qed

text \<open>
  The other two arguments of the parse call are constants as well: the virtual file name
  is \<^verbatim>\<open>input.cc\<close> and the tool name is the macro \<^verbatim>\<open>CLANG_PATH\<close>, for every \<^verbatim>\<open>argc\<close>
  and \<^verbatim>\<open>argv\<close>. What the library does with the file name, in particular how it labels
  the diagnostics it prints, is decided inside the library and is not part of this model.
\<close>

lemma parse_call_file_and_tool:
  "\<exists>status calls. main buildAST CLANG_PATH argc argv = Exited status calls
     \<and> map FileName (filter is_parse calls) = [''input.cc'']
     \<and> map ToolName (filter is_parse calls) = [CLANG_PATH]"
  by (auto simp: main_def Let_def split: option.split)

subsection \<open>The process arguments\<close>

text \<open>
  C8, as stated: without a source argument the unchecked read of \<^verbatim>\<open>argv[1]\<close> has
  undefined behaviour. It does not: started with its name only, the program reads the
  terminator \<^verbatim>\<open>argv[argc]\<close>, a null pointer, hands the toolchain the empty text, and with
  a toolchain that accepts the empty text it requests the dump and exits with status 0.
\<close>

theorem missing_argument_run_is_defined_counterexample:
  "argv_at [''prog''] 1 = None
   \<and> main toy_buildAST ''/usr/lib/llvm/bin/clang'' 1 [''prog'']
       = Exited 0 [BuildASTFromCodeWithArgs [] Args ''input.cc'' ''/usr/lib/llvm/bin/clang'',
                   DumpColor []]"
  by (simp add: main_def StringRef_def argv_at_def toy_buildAST_def)

text \<open>
  C8, amended. The read of \<^verbatim>\<open>argv[1]\<close> is unguarded: nothing is tested before it, and
  \<^verbatim>\<open>argc\<close> plays no part. When a source argument was supplied, the read yields it and it
  is the code of the one parse call. When the program was started with its name only, the
  read is still inside the array and yields the null terminator; the code of the one parse
  call is then the empty text, and the run is the run on an empty source argument, with the
  same exit status and the same calls.
\<close>

theorem argv1_read_is_unguarded:
  "(1 < length argv \<longrightarrow>
      argv_at argv 1 = Some (argv ! 1)
      \<and> (\<exists>status calls. main buildAST CLANG_PATH argc argv = Exited status calls
            \<and> map Code (filter is_parse calls) = [argv ! 1]))
   \<and> (length argv = 1 \<longrightarrow>
      argv_at argv 1 = None
      \<and> (\<exists>status calls. main buildAST CLANG_PATH argc argv = Exited status calls
            \<and> map Code (filter is_parse calls) = [''''])
      \<and> main buildAST CLANG_PATH argc argv = main buildAST CLANG_PATH argc' (argv @ ['''']))"
proof (intro conjI impI)
  assume "1 < length argv"
  then show a: "argv_at argv 1 = Some (argv ! 1)" by (simp add: argv_at_def)
  from main_parses_once [OF a, of buildAST CLANG_PATH argc]
  show "\<exists>status calls. main buildAST CLANG_PATH argc argv = Exited status calls
          \<and> map Code (filter is_parse calls) = [argv ! 1]"
    by auto
next
  assume "length argv = 1"
  then show "argv_at argv 1 = None" by (simp add: argv_at_def)
next
  assume "length argv = 1"
  then have n: "argv_at argv 1 = None" by (simp add: argv_at_def)
  then show "\<exists>status calls. main buildAST CLANG_PATH argc argv = Exited status calls
          \<and> map Code (filter is_parse calls) = ['''']"
    by (auto simp: main_def StringRef_def Let_def split: option.split)
next
  assume l: "length argv = 1"
  then obtain a where "argv = [a]" by (cases argv) auto
  then show "main buildAST CLANG_PATH argc argv = main buildAST CLANG_PATH argc' (argv @ [''''])"
    by (simp add: main_def StringRef_def argv_at_def)
qed

theorem argv1_read_is_unguarded_witness:
  "(\<exists>status calls.
      main toy_buildAST ''/usr/lib/llvm/bin/clang'' 2 [''prog'', ''int x;'']
        = Exited status calls
      \<and> map Code (filter is_parse calls) = [''int x;''])
   \<and> (\<exists>status calls.
      main toy_buildAST ''/usr/lib/llvm/bin/clang'' 1 [''prog''] = Exited status calls
      \<and> map Code (filter is_parse calls) = [''''])
   \<and> main toy_buildAST ''/usr/lib/llvm/bin/clang'' 1 [''prog'']
       = main toy_buildAST ''/usr/lib/llvm/bin/clang'' 2 [''prog'', '''']"
proof -
  have two: "1 < length [''prog'', ''int x;'']" and one: "length [''prog''] = 1"
    by simp_all
  note supplied =
    argv1_read_is_unguarded
      [of "[''prog'', ''int x;'']" toy_buildAST "''/usr/lib/llvm/bin/clang''" 2 2,
       THEN conjunct1, THEN mp, OF two]
  note name_only =
    argv1_read_is_unguarded
      [of "[''prog'']" toy_buildAST "''/usr/lib/llvm/bin/clang''" 1 2,
       THEN conjunct2, THEN mp, OF one]
  from supplied [THEN conjunct2]
  have a: "\<exists>status calls.
             main toy_buildAST ''/usr/lib/llvm/bin/clang'' 2 [''prog'', ''int x;'']
               = Exited status calls
             \<and> map Code (filter is_parse calls) = [''int x;'']"
    by simp
  note b = name_only [THEN conjunct2, THEN conjunct1]
  from name_only [THEN conjunct2, THEN conjunct2]
  have c: "main toy_buildAST ''/usr/lib/llvm/bin/clang'' 1 [''prog'']
             = main toy_buildAST ''/usr/lib/llvm/bin/clang'' 2 [''prog'', '''']"
    by simp
  from a b c show ?thesis by (intro conjI)
qed

text \<open>
  C10. \<^verbatim>\<open>argc\<close> and the arguments from \<^verbatim>\<open>argv[2]\<close> on never influence the run: two
  runs with the same \<^verbatim>\<open>argv[1]\<close> and the same toolchain have the same outcome, that is
  the same exit status and the same calls, whatever else differs in \<^verbatim>\<open>argc\<close> and
  \<^verbatim>\<open>argv\<close>.
\<close>

theorem argc_and_later_arguments_are_ignored:
  assumes "argv_at argv 1 = argv_at argv' 1"
  shows "main buildAST CLANG_PATH argc argv = main buildAST CLANG_PATH argc' argv'"
  using assms by (simp add: main_def)

theorem argc_and_later_arguments_are_ignored_witness:
  "main toy_buildAST ''/usr/lib/llvm/bin/clang'' 2 [''prog'', ''int x;'']
     = main toy_buildAST ''/usr/lib/llvm/bin/clang'' 4 [''prog'', ''int x;'', ''-v'', ''y'']"
proof -
  have "argv_at [''prog'', ''int x;''] 1 = argv_at [''prog'', ''int x;'', ''-v'', ''y''] 1"
    by (simp add: argv_at_def)
  then show ?thesis by (rule argc_and_later_arguments_are_ignored)
qed


end
